theory Spec2Isabelle
  imports
    Main
    "HOL-Library.AList"
    "HOL-Library.Char_ord"
    "HOL-Library.List_Lexorder"
    "HOL-Library.Product_Lexorder"
    "HOL-Library.Multiset"
begin

section \<open>Values, dictionaries and strings\<close>

text \<open>
  A feature is the JSON object the REST client hands around: a dictionary of attributes
  (field name to scalar) and a geometry the importer never looks at. Python dictionaries
  are association lists here; \<open>d[k]\<close> raises \<open>KeyError\<close> on a missing key, and every
  call to a feature layer may raise.
\<close>

datatype val = IntV int | StrV string | NoneV

datatype error = KeyError | RemoteOperationError

record 'g feature =
  attributes :: "(string \<times> val) list"
  geometry :: 'g

text \<open>\<open>d[k]\<close>\<close>

definition getitem :: "('k \<times> 'v) list \<Rightarrow> 'k \<Rightarrow> error + 'v" where
  "getitem d k = (case map_of d k of None \<Rightarrow> Inl KeyError | Some v \<Rightarrow> Inr v)"

text \<open>\<open>k in d\<close>\<close>

definition contains :: "('k \<times> 'v) list \<Rightarrow> 'k \<Rightarrow> bool" where
  "contains d k = (map_of d k \<noteq> None)"

text \<open>\<open>sep.join(xs)\<close>\<close>

fun join :: "string \<Rightarrow> string list \<Rightarrow> string" where
  "join sep [] = []"
| "join sep [x] = x"
| "join sep (x # y # ys) = x @ sep @ join sep (y # ys)"

text \<open>\<open>str(o)\<close> on the scalars of a feature: integers print in decimal.\<close>

definition digit_char :: "nat \<Rightarrow> char" where
  "digit_char d = ''0123456789'' ! d"

fun str_nat :: "nat \<Rightarrow> string" where
  "str_nat n = (if n < 10 then [digit_char n] else str_nat (n div 10) @ [digit_char (n mod 10)])"

declare str_nat.simps [simp del]

definition str_int :: "int \<Rightarrow> string" where
  "str_int i = (if i < 0 then CHR ''-'' # str_nat (nat (- i)) else str_nat (nat i))"

fun str :: "val \<Rightarrow> string" where
  "str (IntV i) = str_int i"
| "str (StrV s) = s"
| "str NoneV = ''None''"

section \<open>Attribute mapper and dictionary merge\<close>

text \<open>
  Modelled from the spec: \<open>agstools.attribute_mapper.AttributeMapper\<close> is not among the
  sources. It holds one dictionary, \<open>attribute_map\<close>, from source field name to target
  field name; \<open>add_mapping\<close> inserts or overwrites one entry and validates nothing.
\<close>

record attribute_mapper =
  attribute_map :: "(string \<times> string) list"

definition AttributeMapper :: attribute_mapper where
  "AttributeMapper = \<lparr>attribute_map = []\<rparr>"

definition add_mapping :: "string \<Rightarrow> string \<Rightarrow> attribute_mapper \<Rightarrow> attribute_mapper" where
  "add_mapping source_field target_field m =
     m\<lparr>attribute_map := AList.update source_field target_field (attribute_map m)\<rparr>"

text \<open>
  Modelled from the spec: \<open>agstools.utility.merge_dicts\<close> is not among the sources. The
  result has the keys of both dictionaries, and at each key the value of \<open>b\<close> when \<open>b\<close>
  has the key, the value of \<open>a\<close> otherwise.
\<close>

definition merge_dicts :: "('k \<times> 'v) list \<Rightarrow> ('k \<times> 'v) list \<Rightarrow> ('k \<times> 'v) list" where
  "merge_dicts a b =
     map (\<lambda>k. (k, if contains b k then the (map_of b k) else the (map_of a k)))
       (remdups (map fst a @ map fst b))"

section \<open>Feature processor\<close>

text \<open>
  Modelled from the spec: \<open>agstools.feature_processor.FeatureProcessor\<close> is not among the
  sources. It wraps a list of features; \<open>replace_attributes\<close> renames the attribute keys
  of every feature by a name map and drops the keys the map does not have;
  \<open>remove_attributes\<close> deletes the named attributes where present. Both keep the order of
  the features and leave everything but the attributes alone.
\<close>

record 'g feature_processor =
  features :: "'g feature list"

definition FeatureProcessor :: "'g feature list \<Rightarrow> 'g feature_processor" where
  "FeatureProcessor fs = \<lparr>features = fs\<rparr>"

definition rename_keys :: "(string \<times> string) list \<Rightarrow> (string \<times> val) list \<Rightarrow> (string \<times> val) list" where
  "rename_keys name_map d =
     concat (map (\<lambda>(k, v). case map_of name_map k of None \<Rightarrow> [] | Some k' \<Rightarrow> [(k', v)]) d)"

definition replace_attributes ::
  "(string \<times> string) list \<Rightarrow> 'g feature_processor \<Rightarrow> 'g feature_processor" where
  "replace_attributes name_map fp =
     fp\<lparr>features := map (\<lambda>f. f\<lparr>attributes := rename_keys name_map (attributes f)\<rparr>) (features fp)\<rparr>"

definition remove_attributes :: "string list \<Rightarrow> 'g feature_processor \<Rightarrow> 'g feature_processor" where
  "remove_attributes names fp =
     fp\<lparr>features :=
          map (\<lambda>f. f\<lparr>attributes := filter (\<lambda>(k, v). k \<notin> set names) (attributes f)\<rparr>) (features fp)\<rparr>"

section \<open>Feature layer\<close>

text \<open>
  Modelled from the spec: \<open>agstools.feature_layer.FeatureLayer\<close> is not among the
  sources. A layer is a remote store: a schema and records that each carry an object id
  the store assigned. Any request may be refused (\<open>refuses\<close>), which raises and
  changes nothing.
  \<^item> \<open>definition()\<close> returns the schema; of it the importer reads \<open>objectIdField\<close> and
    the \<open>name\<close> of each entry of \<open>fields\<close>, so the model returns this pair.
  \<^item> \<open>query_features_batch\<close> with the filter \<open>1=1\<close> returns every record, with the
    attributes named in the comma-separated \<open>outFields\<close>; the object id is an attribute
    like the others, under the name \<open>objectIdField\<close>.
  \<^item> \<open>add_features_batch\<close> stores the whole batch, giving each record a fresh object id,
    or nothing at all.
  \<^item> \<open>delete_features\<close> removes the records whose object id is in the comma-separated
    \<open>objectIds\<close>.
\<close>

datatype 'g request =
    Definition
  | QueryFeaturesBatch string string
  | AddFeaturesBatch "'g feature list"
  | DeleteFeatures string

record 'g row =
  oid :: int
  row_attributes :: "(string \<times> val) list"
  row_geometry :: 'g

record 'g feature_layer =
  objectIdField :: string
  field_names :: "string list"
  rows :: "'g row list"
  refuses :: "'g request \<Rightarrow> bool"

fun split_on :: "char \<Rightarrow> string \<Rightarrow> string list" where
  "split_on c [] = [[]]"
| "split_on c (x # xs) =
     (if x = c then [] # split_on c xs
      else (case split_on c xs of [] \<Rightarrow> [[x]] | t # ts \<Rightarrow> (x # t) # ts))"

definition comma_separated :: "string \<Rightarrow> string list" where
  "comma_separated s =
     (if s = [] then [] else map (dropWhile (\<lambda>c. c = CHR '' '')) (split_on CHR '','' s))"

definition layer_definition :: "'g feature_layer \<Rightarrow> error + string \<times> string list" where
  "layer_definition layer =
     (if refuses layer Definition then Inl RemoteOperationError
      else Inr (objectIdField layer, field_names layer))"

definition row_feature :: "string \<Rightarrow> string list \<Rightarrow> 'g row \<Rightarrow> 'g feature" where
  "row_feature oid_field names r =
     \<lparr>attributes = filter (\<lambda>(k, v). k \<in> set names)
                      (AList.update oid_field (IntV (oid r)) (row_attributes r)),
      geometry = row_geometry r\<rparr>"

definition query_features_batch ::
  "'g feature_layer \<Rightarrow> string \<Rightarrow> string \<Rightarrow> error + 'g feature list" where
  "query_features_batch layer where_clause outFields =
     (if refuses layer (QueryFeaturesBatch where_clause outFields) then Inl RemoteOperationError
      else Inr (map (row_feature (objectIdField layer) (comma_separated outFields)) (rows layer)))"

definition fresh_oid :: "'g feature_layer \<Rightarrow> int" where
  "fresh_oid layer = 1 + fold max (map oid (rows layer)) 0"

definition new_rows :: "'g feature_layer \<Rightarrow> 'g feature list \<Rightarrow> 'g row list" where
  "new_rows layer fs =
     map (\<lambda>(i, f). \<lparr>oid = fresh_oid layer + int i,
                    row_attributes = AList.delete (objectIdField layer) (attributes f),
                    row_geometry = geometry f\<rparr>)
       (zip [0 ..< length fs] fs)"

definition add_features_batch :: "'g feature_layer \<Rightarrow> 'g feature list \<Rightarrow> error + 'g feature_layer" where
  "add_features_batch layer fs =
     (if refuses layer (AddFeaturesBatch fs) then Inl RemoteOperationError
      else Inr (layer\<lparr>rows := rows layer @ new_rows layer fs\<rparr>))"

definition delete_features :: "'g feature_layer \<Rightarrow> string \<Rightarrow> error + 'g feature_layer" where
  "delete_features layer objectIds =
     (if refuses layer (DeleteFeatures objectIds) then Inl RemoteOperationError
      else Inr (layer\<lparr>rows := filter (\<lambda>r. str_int (oid r) \<notin> set (comma_separated objectIds))
                                 (rows layer)\<rparr>))"

section \<open>The importer\<close>

text \<open>
  The object of class \<open>FeatureImporter\<close>. Its two layers are remote stores, so the state
  of the stores is part of the state the methods transform, and \<open>remote_calls\<close> records
  every request the importer sends, in order (a ghost field: the Python object has no
  such attribute). A method is a function from the state to a result and the new state;
  the result is \<open>Inl e\<close> when the method raises \<open>e\<close>.
\<close>

datatype side = Source | Target

record 'g comp_side =
  index :: "(val \<times> val) list"
  matched :: "'g feature list"
  unmatched :: "'g feature list"

record 'g comp =
  src :: "'g comp_side"
  tgt :: "'g comp_side"

record 'g feature_importer =
  src_feat_layer :: "'g feature_layer"
  tgt_feat_layer :: "'g feature_layer"
  cust_attr_mapper :: attribute_mapper
  auto_attr_mapper :: attribute_mapper
  comp_features :: "'g comp"
  remote_calls :: "(side \<times> 'g request) list"

type_synonym ('g, 'a) action = "'g feature_importer \<Rightarrow> (error + 'a) \<times> 'g feature_importer"

definition ret :: "'a \<Rightarrow> ('g, 'a) action" where
  "ret a self = (Inr a, self)"

definition lift :: "error + 'a \<Rightarrow> ('g, 'a) action" where
  "lift r self = (r, self)"

definition bind :: "('g, 'a) action \<Rightarrow> ('a \<Rightarrow> ('g, 'b) action) \<Rightarrow> ('g, 'b) action" where
  "bind m f self = (case m self of (Inl e, self') \<Rightarrow> (Inl e, self') | (Inr a, self') \<Rightarrow> f a self')"

fun feat_layer :: "side \<Rightarrow> 'g feature_importer \<Rightarrow> 'g feature_layer" where
  "feat_layer Source self = src_feat_layer self"
| "feat_layer Target self = tgt_feat_layer self"

fun set_feat_layer :: "side \<Rightarrow> 'g feature_layer \<Rightarrow> 'g feature_importer \<Rightarrow> 'g feature_importer" where
  "set_feat_layer Source layer self = self\<lparr>src_feat_layer := layer\<rparr>"
| "set_feat_layer Target layer self = self\<lparr>tgt_feat_layer := layer\<rparr>"

definition sent :: "side \<Rightarrow> 'g request \<Rightarrow> 'g feature_importer \<Rightarrow> 'g feature_importer" where
  "sent s rq self = self\<lparr>remote_calls := remote_calls self @ [(s, rq)]\<rparr>"

text \<open>The four calls on a layer, as the importer makes them.\<close>

definition call_definition :: "side \<Rightarrow> ('g, string \<times> string list) action" where
  "call_definition s self = (layer_definition (feat_layer s self), sent s Definition self)"

definition call_query_features_batch :: "side \<Rightarrow> string \<Rightarrow> string \<Rightarrow> ('g, 'g feature list) action" where
  "call_query_features_batch s where_clause outFields self =
     (query_features_batch (feat_layer s self) where_clause outFields,
      sent s (QueryFeaturesBatch where_clause outFields) self)"

definition call_add_features_batch :: "side \<Rightarrow> 'g feature list \<Rightarrow> ('g, unit) action" where
  "call_add_features_batch s fs self =
     (case add_features_batch (feat_layer s self) fs of
        Inl e \<Rightarrow> (Inl e, sent s (AddFeaturesBatch fs) self)
      | Inr layer \<Rightarrow> (Inr (), set_feat_layer s layer (sent s (AddFeaturesBatch fs) self)))"

definition call_delete_features :: "side \<Rightarrow> string \<Rightarrow> ('g, unit) action" where
  "call_delete_features s objectIds self =
     (case delete_features (feat_layer s self) objectIds of
        Inl e \<Rightarrow> (Inl e, sent s (DeleteFeatures objectIds) self)
      | Inr layer \<Rightarrow> (Inr (), set_feat_layer s layer (sent s (DeleteFeatures objectIds) self)))"

text \<open>Comprehensions whose element expression may raise: the first failure ends them.\<close>

fun mapE :: "('a \<Rightarrow> error + 'b) \<Rightarrow> 'a list \<Rightarrow> error + 'b list" where
  "mapE f [] = Inr []"
| "mapE f (x # xs) =
     (case f x of Inl e \<Rightarrow> Inl e
      | Inr y \<Rightarrow> (case mapE f xs of Inl e \<Rightarrow> Inl e | Inr ys \<Rightarrow> Inr (y # ys)))"

fun filterE :: "('a \<Rightarrow> error + bool) \<Rightarrow> 'a list \<Rightarrow> error + 'a list" where
  "filterE p [] = Inr []"
| "filterE p (x # xs) =
     (case p x of Inl e \<Rightarrow> Inl e
      | Inr b \<Rightarrow> (case filterE p xs of Inl e \<Rightarrow> Inl e | Inr ys \<Rightarrow> Inr (if b then x # ys else ys)))"

text \<open>
  \<open>{f['attributes'][uid_field]: f['attributes'][oid_field] for f in features}\<close>: the
  entries are stored one after the other, a later one replacing an earlier one with the
  same key.
\<close>

fun build_index ::
  "string \<Rightarrow> string \<Rightarrow> 'g feature list \<Rightarrow> (val \<times> val) list \<Rightarrow> error + (val \<times> val) list" where
  "build_index uid_field oid_field [] acc = Inr acc"
| "build_index uid_field oid_field (f # fs) acc =
     (case getitem (attributes f) uid_field of Inl e \<Rightarrow> Inl e
      | Inr u \<Rightarrow>
          (case getitem (attributes f) oid_field of Inl e \<Rightarrow> Inl e
           | Inr i \<Rightarrow> build_index uid_field oid_field fs (AList.update u i acc)))"

text \<open>\<open>f['attributes'][uid_field] in index\<close>, and its negation\<close>

definition uid_in :: "string \<Rightarrow> (val \<times> val) list \<Rightarrow> 'g feature \<Rightarrow> error + bool" where
  "uid_in uid_field idx f =
     (case getitem (attributes f) uid_field of Inl e \<Rightarrow> Inl e | Inr u \<Rightarrow> Inr (contains idx u))"

definition uid_not_in :: "string \<Rightarrow> (val \<times> val) list \<Rightarrow> 'g feature \<Rightarrow> error + bool" where
  "uid_not_in uid_field idx f =
     (case getitem (attributes f) uid_field of Inl e \<Rightarrow> Inl e | Inr u \<Rightarrow> Inr (\<not> contains idx u))"

definition empty_comp :: "'g comp" where
  "empty_comp = \<lparr>src = \<lparr>index = [], matched = [], unmatched = []\<rparr>,
                 tgt = \<lparr>index = [], matched = [], unmatched = []\<rparr>\<rparr>"

text \<open>Assignments to \<open>self.comp_features[side][key]\<close>\<close>

fun set_index :: "side \<Rightarrow> (val \<times> val) list \<Rightarrow> ('g, unit) action" where
  "set_index Source v self =
     (Inr (), self\<lparr>comp_features := (comp_features self)\<lparr>src := (src (comp_features self))\<lparr>index := v\<rparr>\<rparr>\<rparr>)"
| "set_index Target v self =
     (Inr (), self\<lparr>comp_features := (comp_features self)\<lparr>tgt := (tgt (comp_features self))\<lparr>index := v\<rparr>\<rparr>\<rparr>)"

fun set_matched :: "side \<Rightarrow> 'g feature list \<Rightarrow> ('g, unit) action" where
  "set_matched Source v self =
     (Inr (), self\<lparr>comp_features := (comp_features self)\<lparr>src := (src (comp_features self))\<lparr>matched := v\<rparr>\<rparr>\<rparr>)"
| "set_matched Target v self =
     (Inr (), self\<lparr>comp_features := (comp_features self)\<lparr>tgt := (tgt (comp_features self))\<lparr>matched := v\<rparr>\<rparr>\<rparr>)"

fun set_unmatched :: "side \<Rightarrow> 'g feature list \<Rightarrow> ('g, unit) action" where
  "set_unmatched Source v self =
     (Inr (), self\<lparr>comp_features := (comp_features self)\<lparr>src := (src (comp_features self))\<lparr>unmatched := v\<rparr>\<rparr>\<rparr>)"
| "set_unmatched Target v self =
     (Inr (), self\<lparr>comp_features := (comp_features self)\<lparr>tgt := (tgt (comp_features self))\<lparr>unmatched := v\<rparr>\<rparr>\<rparr>)"

subsection \<open>The methods of \<open>FeatureImporter\<close>\<close>

text \<open>
  \<open>__build_auto_attr_mapper\<close>. The iteration order of the Python set
  \<open>set(src_fields) & set(tgt_fields)\<close> is not specified; the model takes the order of the
  source schema.
\<close>

definition build_auto_attr_mapper :: "('g, attribute_mapper) action" where
  "build_auto_attr_mapper =
     bind (call_definition Source) (\<lambda>src_def.
     bind (call_definition Target) (\<lambda>tgt_def.
       let auto_mapper = AttributeMapper;
           src_fields = snd src_def;
           tgt_fields = snd tgt_def
       in ret (fold (\<lambda>f_name m. add_mapping f_name f_name m)
                 (filter (\<lambda>f. f \<in> set tgt_fields) (remdups src_fields)) auto_mapper)))"

text \<open>
  The argument \<open>custom_attr_mapper\<close> of the constructor is any Python object;
  \<open>isinstance(custom_attr_mapper, AttributeMapper)\<close> tells the mappers from the rest.
\<close>

datatype pyobj =
    AttributeMapperObj attribute_mapper
  | NoneObj
  | DictObj "(string \<times> string) list"
  | StrObj string
  | IntObj int

fun isinstance_AttributeMapper :: "pyobj \<Rightarrow> bool" where
  "isinstance_AttributeMapper (AttributeMapperObj m) = True"
| "isinstance_AttributeMapper _ = False"

fun as_AttributeMapper :: "pyobj \<Rightarrow> attribute_mapper" where
  "as_AttributeMapper (AttributeMapperObj m) = m"
| "as_AttributeMapper _ = AttributeMapper"

text \<open>
  \<open>__init__\<close>. The fields are assigned in the order of the source; a field not assigned
  yet holds its final initial value here, which nothing reads before it is assigned. The
  constructor raises when \<open>__build_auto_attr_mapper\<close> does, and then there is no object.
\<close>

definition FeatureImporter_init ::
  "'g feature_layer \<Rightarrow> 'g feature_layer \<Rightarrow> pyobj \<Rightarrow> error + 'g feature_importer" where
  "FeatureImporter_init src_layer tgt_layer custom_attr_mapper =
     (let self = \<lparr>src_feat_layer = src_layer,
                 tgt_feat_layer = tgt_layer,
                 cust_attr_mapper =
                   (if isinstance_AttributeMapper custom_attr_mapper
                    then as_AttributeMapper custom_attr_mapper else AttributeMapper),
                 auto_attr_mapper = AttributeMapper,
                 comp_features = empty_comp,
                 remote_calls = []\<rparr>
      in case build_auto_attr_mapper self of
           (Inl e, self') \<Rightarrow> Inl e
         | (Inr m, self') \<Rightarrow> Inr (self'\<lparr>auto_attr_mapper := m, comp_features := empty_comp\<rparr>))"

text \<open>\<open>__reset_comp_features\<close>\<close>

definition reset_comp_features :: "('g, unit) action" where
  "reset_comp_features self = (Inr (), self\<lparr>comp_features := empty_comp\<rparr>)"

text \<open>\<open>__get_attr_map\<close>\<close>

definition get_attr_map :: "('g, (string \<times> string) list) action" where
  "get_attr_map self =
     (Inr (merge_dicts (attribute_map (auto_attr_mapper self)) (attribute_map (cust_attr_mapper self))),
      self)"

text \<open>Reading \<open>self.comp_features['src' or 'tgt']\<close>\<close>

fun comp_side_of :: "side \<Rightarrow> ('g, 'g comp_side) action" where
  "comp_side_of Source self = (Inr (src (comp_features self)), self)"
| "comp_side_of Target self = (Inr (tgt (comp_features self)), self)"

text \<open>
  \<open>__comp_features\<close>, in two parts: \<open>fetch_features\<close> is the method up to the two
  queries (it returns the two object id field names and the two fetched lists),
  \<open>classify_features\<close> is the rest, the indexes and the four lists.
\<close>

definition fetch_features ::
  "('g, string \<times> string \<times> 'g feature list \<times> 'g feature list) action" where
  "fetch_features =
     bind reset_comp_features (\<lambda>_.
     bind get_attr_map (\<lambda>attr_map.
     bind (call_definition Source) (\<lambda>src_def.
     bind (call_definition Target) (\<lambda>tgt_def.
       let src_oid_field = fst src_def;
           tgt_oid_field = fst tgt_def;
           src_attr = map fst (sort attr_map);
           tgt_attr = map snd (sort attr_map)
       in
     bind (call_query_features_batch Source ''1=1'' (join '', '' src_attr)) (\<lambda>src_features.
     bind (call_query_features_batch Target ''1=1'' (join '', '' tgt_attr)) (\<lambda>tgt_features.
       ret (src_oid_field, tgt_oid_field, src_features, tgt_features)))))))"

definition classify_features ::
  "string \<Rightarrow> string \<Rightarrow> string \<Rightarrow> string \<Rightarrow> 'g feature list \<Rightarrow> 'g feature list \<Rightarrow> ('g, unit) action" where
  "classify_features src_uid_field tgt_uid_field src_oid_field tgt_oid_field src_features tgt_features =
     bind (lift (build_index src_uid_field src_oid_field src_features [])) (\<lambda>src_index.
     bind (set_index Source src_index) (\<lambda>_.
     bind (lift (build_index tgt_uid_field tgt_oid_field tgt_features [])) (\<lambda>tgt_index.
     bind (set_index Target tgt_index) (\<lambda>_.
     bind (comp_side_of Target) (\<lambda>t.
     bind (lift (filterE (uid_in src_uid_field (index t)) src_features)) (\<lambda>src_matched.
     bind (set_matched Source src_matched) (\<lambda>_.
     bind (comp_side_of Target) (\<lambda>t.
     bind (lift (filterE (uid_not_in src_uid_field (index t)) src_features)) (\<lambda>src_unmatched.
     bind (set_unmatched Source src_unmatched) (\<lambda>_.
     bind (comp_side_of Source) (\<lambda>s.
     bind (lift (filterE (uid_in tgt_uid_field (index s)) tgt_features)) (\<lambda>tgt_matched.
     bind (set_matched Target tgt_matched) (\<lambda>_.
     bind (comp_side_of Source) (\<lambda>s.
     bind (lift (filterE (uid_not_in tgt_uid_field (index s)) tgt_features)) (\<lambda>tgt_unmatched.
     set_unmatched Target tgt_unmatched)))))))))))))))"

definition FeatureImporter_comp_features :: "string \<Rightarrow> string \<Rightarrow> ('g, unit) action" where
  "FeatureImporter_comp_features src_uid_field tgt_uid_field =
     bind fetch_features (\<lambda>(src_oid_field, tgt_oid_field, src_features, tgt_features).
       classify_features src_uid_field tgt_uid_field src_oid_field tgt_oid_field
         src_features tgt_features)"

text \<open>
  \<open>import_features\<close>. \<open>deepcopy\<close> is the identity on values, and the
  \<open>logger.debug\<close> lines have no effect on the state. The two \<open>if\<close> blocks of the method
  are \<open>import_add_features\<close> (the features that have not been imported) and
  \<open>import_old_features\<close> (the features imported before and never deleted).
\<close>

definition import_add_features ::
  "(string \<times> string) list \<Rightarrow> string \<Rightarrow> 'g feature list \<Rightarrow> ('g, unit) action" where
  "import_add_features attr_map src_oid_field add_features =
     (if length add_features > 0 then
        bind (lift (mapE (\<lambda>f. getitem (attributes f) src_oid_field) add_features)) (\<lambda>add_oids.
          let add_oids_str = join '', '' (map str add_oids);
              add_fp = FeatureProcessor add_features;
              add_fp = replace_attributes attr_map add_fp;
              add_fp = remove_attributes [src_oid_field] add_fp
          in
        bind (call_add_features_batch Target (features add_fp)) (\<lambda>_.
          call_delete_features Source add_oids_str))
      else ret ())"

definition import_old_features :: "string \<Rightarrow> 'g feature list \<Rightarrow> ('g, unit) action" where
  "import_old_features src_oid_field old_features =
     (if length old_features > 0 then
        bind (lift (mapE (\<lambda>f. getitem (attributes f) src_oid_field) old_features)) (\<lambda>old_oids.
          let old_oids_str = join '', '' (map str old_oids)
          in call_delete_features Source old_oids_str)
      else ret ())"

definition import_features :: "string \<Rightarrow> string \<Rightarrow> ('g, unit) action" where
  "import_features src_uid_field tgt_uid_field =
     bind (FeatureImporter_comp_features src_uid_field tgt_uid_field) (\<lambda>_.
     bind get_attr_map (\<lambda>attr_map.
     bind (call_definition Source) (\<lambda>src_def.
     bind (call_definition Target) (\<lambda>tgt_def.
       let src_oid_field = fst src_def;
           tgt_oid_field = fst tgt_def
       in
     bind (comp_side_of Source) (\<lambda>s.
       let add_features = unmatched s in
     bind (comp_side_of Source) (\<lambda>s.
       let old_features = matched s in
     bind (import_add_features attr_map src_oid_field add_features) (\<lambda>_.
       import_old_features src_oid_field old_features)))))))"

section \<open>Notions the properties are stated with\<close>

text \<open>The value of attribute \<open>k\<close> of a feature that has it.\<close>

definition field_val :: "string \<Rightarrow> 'g feature \<Rightarrow> val" where
  "field_val k f = the (map_of (attributes f) k)"

text \<open>The last feature of a list whose unique id is \<open>u\<close>, if there is one.\<close>

definition last_with_uid :: "string \<Rightarrow> val \<Rightarrow> 'g feature list \<Rightarrow> 'g feature option" where
  "last_with_uid uid_field u fs =
     (case filter (\<lambda>f. getitem (attributes f) uid_field = Inr u) fs of
        [] \<Rightarrow> None
      | x # xs \<Rightarrow> Some (last (x # xs)))"

text \<open>
  The effective attribute map of an importer (what \<open>__get_attr_map\<close> returns), and the
  two \<open>outFields\<close> arguments \<open>__comp_features\<close> builds from it.
\<close>

definition effective_map :: "'g feature_importer \<Rightarrow> (string \<times> string) list" where
  "effective_map self =
     merge_dicts (attribute_map (auto_attr_mapper self)) (attribute_map (cust_attr_mapper self))"

definition src_out_fields :: "'g feature_importer \<Rightarrow> string" where
  "src_out_fields self = join '', '' (map fst (sort (effective_map self)))"

definition tgt_out_fields :: "'g feature_importer \<Rightarrow> string" where
  "tgt_out_fields self = join '', '' (map snd (sort (effective_map self)))"

text \<open>
  The comparison state in closed form: the two indexes, and each fetched list split by
  whether the unique id of the feature is a key of the other side's index.
\<close>

definition comp_of ::
  "string \<Rightarrow> string \<Rightarrow> 'g feature list \<Rightarrow> 'g feature list \<Rightarrow>
   (val \<times> val) list \<Rightarrow> (val \<times> val) list \<Rightarrow> 'g comp" where
  "comp_of su tu sf tf si ti =
     \<lparr>src = \<lparr>index = si,
             matched = filter (\<lambda>f. contains ti (field_val su f)) sf,
             unmatched = filter (\<lambda>f. \<not> contains ti (field_val su f)) sf\<rparr>,
      tgt = \<lparr>index = ti,
             matched = filter (\<lambda>f. contains si (field_val tu f)) tf,
             unmatched = filter (\<lambda>f. \<not> contains si (field_val tu f)) tf\<rparr>\<rparr>"

text \<open>The requests that change nothing in a store.\<close>

fun is_read :: "'g request \<Rightarrow> bool" where
  "is_read Definition = True"
| "is_read (QueryFeaturesBatch w f) = True"
| "is_read (AddFeaturesBatch fs) = False"
| "is_read (DeleteFeatures ids) = False"

text \<open>
  The batch \<open>import_features\<close> hands to the target, and the \<open>objectIds\<close> argument of a
  delete, for features that all have the object id field.
\<close>

definition insert_batch :: "(string \<times> string) list \<Rightarrow> string \<Rightarrow> 'g feature list \<Rightarrow> 'g feature list" where
  "insert_batch attr_map src_oid_field add_features =
     features (remove_attributes [src_oid_field]
                (replace_attributes attr_map (FeatureProcessor add_features)))"

definition oids_str :: "string \<Rightarrow> 'g feature list \<Rightarrow> string" where
  "oids_str src_oid_field fs = join '', '' (map str (map (field_val src_oid_field) fs))"



section \<open>Example stores\<close>

text \<open>
  A source with three customers, two of them under the same unique id, and a target that
  already holds the customer with unique id 2. The name field is \<open>cust_name\<close> in the
  source and \<open>customer_name\<close> in the target, and a custom mapper says so.
\<close>

definition ex_src :: "unit feature_layer" where
  "ex_src =
     \<lparr>objectIdField = ''OBJECTID'',
      field_names = [''OBJECTID'', ''uid'', ''cust_name''],
      rows = [\<lparr>oid = 7, row_attributes = [(''uid'', IntV 1), (''cust_name'', StrV ''A'')],
               row_geometry = ()\<rparr>,
              \<lparr>oid = 12, row_attributes = [(''uid'', IntV 2), (''cust_name'', StrV ''B'')],
               row_geometry = ()\<rparr>,
              \<lparr>oid = 13, row_attributes = [(''uid'', IntV 1), (''cust_name'', StrV ''C'')],
               row_geometry = ()\<rparr>],
      refuses = (\<lambda>_. False)\<rparr>"

definition ex_tgt :: "unit feature_layer" where
  "ex_tgt =
     \<lparr>objectIdField = ''OBJECTID'',
      field_names = [''OBJECTID'', ''uid'', ''customer_name''],
      rows = [\<lparr>oid = 3, row_attributes = [(''uid'', IntV 2), (''customer_name'', StrV ''B'')],
               row_geometry = ()\<rparr>],
      refuses = (\<lambda>_. False)\<rparr>"

definition ex_cust_mapper :: attribute_mapper where
  "ex_cust_mapper = \<lparr>attribute_map = [(''cust_name'', ''customer_name'')]\<rparr>"

text \<open>The importer the constructor builds on these stores; \<open>f\<close> is what the target refuses.\<close>

definition ex_importer_on :: "(unit request \<Rightarrow> bool) \<Rightarrow> unit feature_importer" where
  "ex_importer_on f =
     \<lparr>src_feat_layer = ex_src,
      tgt_feat_layer = ex_tgt\<lparr>refuses := f\<rparr>,
      cust_attr_mapper = ex_cust_mapper,
      auto_attr_mapper = \<lparr>attribute_map = [(''OBJECTID'', ''OBJECTID''), (''uid'', ''uid'')]\<rparr>,
      comp_features = empty_comp,
      remote_calls = [(Source, Definition), (Target, Definition)]\<rparr>"

definition ex_importer :: "unit feature_importer" where
  "ex_importer = ex_importer_on (\<lambda>_. False)"

text \<open>The same with a target that answers schema requests and queries and refuses the rest.\<close>

definition ex_rejecting :: "unit feature_importer" where
  "ex_rejecting = ex_importer_on (\<lambda>rq. \<not> is_read rq)"

text \<open>What a comparison on the unique id field \<open>uid\<close> fetches and computes there.\<close>

definition ex_src_fetched :: "unit feature list" where
  "ex_src_fetched =
     [\<lparr>attributes = [(''uid'', IntV 1), (''cust_name'', StrV ''A''), (''OBJECTID'', IntV 7)],
       geometry = ()\<rparr>,
      \<lparr>attributes = [(''uid'', IntV 2), (''cust_name'', StrV ''B''), (''OBJECTID'', IntV 12)],
       geometry = ()\<rparr>,
      \<lparr>attributes = [(''uid'', IntV 1), (''cust_name'', StrV ''C''), (''OBJECTID'', IntV 13)],
       geometry = ()\<rparr>]"

definition ex_tgt_fetched :: "unit feature list" where
  "ex_tgt_fetched =
     [\<lparr>attributes = [(''uid'', IntV 2), (''customer_name'', StrV ''B''), (''OBJECTID'', IntV 3)],
       geometry = ()\<rparr>]"

definition ex_comp :: "unit comp" where
  "ex_comp =
     \<lparr>src = \<lparr>index = [(IntV 1, IntV 13), (IntV 2, IntV 12)],
             matched = [ex_src_fetched ! 1],
             unmatched = [ex_src_fetched ! 0, ex_src_fetched ! 2]\<rparr>,
      tgt = \<lparr>index = [(IntV 2, IntV 3)],
             matched = ex_tgt_fetched,
             unmatched = []\<rparr>\<rparr>"

definition ex_comp_calls :: "(side \<times> unit request) list" where
  "ex_comp_calls =
     [(Source, Definition), (Target, Definition),
      (Source, Definition), (Target, Definition),
      (Source, QueryFeaturesBatch ''1=1'' ''OBJECTID, cust_name, uid''),
      (Target, QueryFeaturesBatch ''1=1'' ''OBJECTID, customer_name, uid'')]"

definition ex_compared :: "unit feature_importer" where
  "ex_compared = ex_importer\<lparr>comp_features := ex_comp, remote_calls := ex_comp_calls\<rparr>"

text \<open>The batch the import sends to the target, and the importer after the import.\<close>

definition ex_inserted :: "unit feature list" where
  "ex_inserted =
     [\<lparr>attributes = [(''uid'', IntV 1), (''customer_name'', StrV ''A'')], geometry = ()\<rparr>,
      \<lparr>attributes = [(''uid'', IntV 1), (''customer_name'', StrV ''C'')], geometry = ()\<rparr>]"

definition ex_imported :: "unit feature_importer" where
  "ex_imported =
     ex_importer
       \<lparr>src_feat_layer := ex_src\<lparr>rows := []\<rparr>,
        tgt_feat_layer := ex_tgt
          \<lparr>rows := rows ex_tgt @
             [\<lparr>oid = 4, row_attributes = [(''uid'', IntV 1), (''customer_name'', StrV ''A'')],
               row_geometry = ()\<rparr>,
              \<lparr>oid = 5, row_attributes = [(''uid'', IntV 1), (''customer_name'', StrV ''C'')],
               row_geometry = ()\<rparr>]\<rparr>,
        comp_features := ex_comp,
        remote_calls := ex_comp_calls @
          [(Source, Definition), (Target, Definition),
           (Target, AddFeaturesBatch ex_inserted),
           (Source, DeleteFeatures ''7, 13''), (Source, DeleteFeatures ''12'')]\<rparr>"



text \<open>An importer whose custom map overrides one automatic entry and adds another.\<close>

definition ex_overriding :: "unit feature_importer" where
  "ex_overriding =
     \<lparr>src_feat_layer = ex_src,
      tgt_feat_layer = ex_tgt,
      cust_attr_mapper = \<lparr>attribute_map = [(''cust_name'', ''customer_name''), (''uid'', ''key'')]\<rparr>,
      auto_attr_mapper = \<lparr>attribute_map = [(''OBJECTID'', ''OBJECTID''), (''uid'', ''uid'')]\<rparr>,
      comp_features = empty_comp,
      remote_calls = [(Source, Definition), (Target, Definition)]\<rparr>"

text \<open>A custom mapper that names a field neither schema has.\<close>

definition ex_ghost_mapper :: attribute_mapper where
  "ex_ghost_mapper = \<lparr>attribute_map = [(''ghost'', ''phantom'')]\<rparr>"

section \<open>Dictionaries\<close>

lemma map_of_tabulate:
  "map_of (map (\<lambda>k. (k, f k)) ks) k = (if k \<in> set ks then Some (f k) else None)"
  by (induction ks) auto

lemma contains_iff: "contains d k \<longleftrightarrow> k \<in> fst ` set d"
  by (simp add: contains_def map_of_eq_None_iff)

lemma map_of_in_keys: "k \<in> fst ` set d \<Longrightarrow> Some (the (map_of d k)) = map_of d k"
  by (cases "map_of d k") (auto simp: map_of_eq_None_iff)

lemma map_of_not_in_keys: "k \<notin> fst ` set d \<Longrightarrow> map_of d k = None"
  by (simp add: map_of_eq_None_iff)

lemma map_of_filter_keys:
  "map_of (filter (\<lambda>(k, v). k \<in> A) d) k = (if k \<in> A then map_of d k else None)"
  by (induction d) auto

lemma getitem_Inr_iff: "getitem d k = Inr v \<longleftrightarrow> map_of d k = Some v"
  by (simp add: getitem_def split: option.splits)

lemma getitem_contains: "contains d k \<Longrightarrow> getitem d k = Inr (the (map_of d k))"
  by (auto simp: getitem_def contains_def)

lemma map_of_merge_dicts:
  "map_of (merge_dicts a b) k = (if contains b k then map_of b k else map_of a k)"
  by (simp add: merge_dicts_def map_of_tabulate contains_iff map_of_in_keys map_of_not_in_keys)

lemma keys_merge_dicts: "map fst (merge_dicts a b) = remdups (map fst a @ map fst b)"
  by (simp add: merge_dicts_def comp_def)


lemma getitem_merge_dicts:
  "getitem (merge_dicts a b) k = (if contains b k then getitem b k else getitem a k)"
  by (simp add: getitem_def map_of_merge_dicts)

section \<open>Sorting the items of a dictionary\<close>




section \<open>Comma-separated lists and decimal numbers\<close>

lemma split_on_nonempty: "split_on c s \<noteq> []"
  by (induction s) (auto split: list.splits)

lemma split_on_no_sep: "c \<notin> set s \<Longrightarrow> split_on c s = [s]"
  by (induction s) auto

lemma split_on_append: "c \<notin> set y \<Longrightarrow> split_on c (y @ c # rest) = y # split_on c rest"
  by (induction y) auto

lemma split_on_space:
  "map (dropWhile (\<lambda>c. c = CHR '' '')) (split_on CHR '','' (CHR '' '' # s)) =
   map (dropWhile (\<lambda>c. c = CHR '' '')) (split_on CHR '','' s)"
  using split_on_nonempty [of "CHR '',''" s]
  by (cases "split_on CHR '','' s") auto

lemma join_nonempty: "y \<noteq> [] \<Longrightarrow> join sep (y # ys) \<noteq> []"
  by (cases ys) auto

lemma strip_no_space: "CHR '' '' \<notin> set x \<Longrightarrow> dropWhile (\<lambda>c. c = CHR '' '') x = x"
  by (cases x) auto

lemma join_Cons_Cons: "join sep (x # y # ys) = x @ sep @ join sep (y # ys)"
  by simp

lemma split_join:
  "\<forall>x\<in>set (x0 # xs). x \<noteq> [] \<and> CHR '','' \<notin> set x \<and> CHR '' '' \<notin> set x \<Longrightarrow>
   map (dropWhile (\<lambda>c. c = CHR '' '')) (split_on CHR '','' (join '', '' (x0 # xs))) = x0 # xs"
proof (induction xs arbitrary: x0)
  case Nil
  then show ?case
    by (simp add: split_on_no_sep strip_no_space)
next
  case (Cons y ys)
  from Cons.prems have x0: "CHR '','' \<notin> set x0" "CHR '' '' \<notin> set x0"
    by simp_all
  from Cons.prems have "\<forall>x\<in>set (y # ys). x \<noteq> [] \<and> CHR '','' \<notin> set x \<and> CHR '' '' \<notin> set x"
    by simp
  from Cons.IH [OF this]
  have ih: "map (dropWhile (\<lambda>c. c = CHR '' '')) (split_on CHR '','' (join '', '' (y # ys))) = y # ys" .
  have "join '', '' (x0 # y # ys) = x0 @ CHR '','' # (CHR '' '' # join '', '' (y # ys))"
    unfolding join_Cons_Cons by simp
  then have "map (dropWhile (\<lambda>c. c = CHR '' '')) (split_on CHR '','' (join '', '' (x0 # y # ys))) =
     dropWhile (\<lambda>c. c = CHR '' '') x0 #
     map (dropWhile (\<lambda>c. c = CHR '' '')) (split_on CHR '','' (CHR '' '' # join '', '' (y # ys)))"
    by (simp only: split_on_append [OF x0(1)] list.map)
  also have "\<dots> = x0 # y # ys"
    by (simp only: split_on_space ih strip_no_space [OF x0(2)])
  finally show ?case .
qed

lemma comma_separated_join:
  "\<forall>x\<in>set xs. x \<noteq> [] \<and> CHR '','' \<notin> set x \<and> CHR '' '' \<notin> set x \<Longrightarrow>
   comma_separated (join '', '' xs) = xs"
proof (cases xs)
  case Nil
  then show ?thesis
    by (simp add: comma_separated_def)
next
  case (Cons x0 xs')
  assume a: "\<forall>x\<in>set xs. x \<noteq> [] \<and> CHR '','' \<notin> set x \<and> CHR '' '' \<notin> set x"
  with Cons have "x0 \<noteq> []"
    by simp
  then have "join '', '' (x0 # xs') \<noteq> []"
    by (rule join_nonempty)
  with split_join [of x0 xs'] a Cons show ?thesis
    by (simp only: comma_separated_def if_False)
qed

lemma digit_char_in: "d < 10 \<Longrightarrow> digit_char d \<in> set ''0123456789''"
  unfolding digit_char_def by (rule nth_mem) simp

lemma str_nat_chars: "set (str_nat n) \<subseteq> set ''0123456789'' \<and> str_nat n \<noteq> []"
proof (induction n rule: str_nat.induct)
  case (1 n)
  show ?case
  proof (cases "n < 10")
    case True
    with digit_char_in [of n] show ?thesis
      by (subst (1 2) str_nat.simps) simp
  next
    case False
    with 1 digit_char_in [of "n mod 10"] show ?thesis
      by (subst (1 2) str_nat.simps) simp
  qed
qed

lemma str_int_chars:
  "str_int i \<noteq> [] \<and> CHR '','' \<notin> set (str_int i) \<and> CHR '' '' \<notin> set (str_int i)"
  using str_nat_chars [of "nat i"] str_nat_chars [of "nat (- i)"]
  by (auto simp: str_int_def)

lemma comma_separated_str_int:
  "comma_separated (join '', '' (map str_int xs)) = map str_int xs"
  by (rule comma_separated_join) (simp add: str_int_chars)

section \<open>Comprehensions over features\<close>

lemma mapE_getitem:
  "\<forall>f\<in>set fs. contains (attributes f) k \<Longrightarrow>
   mapE (\<lambda>f. getitem (attributes f) k) fs = Inr (map (field_val k) fs)"
  by (induction fs) (simp_all add: getitem_contains field_val_def)

lemma filterE_uid_in:
  "\<forall>f\<in>set fs. contains (attributes f) k \<Longrightarrow>
   filterE (uid_in k idx) fs = Inr (filter (\<lambda>f. contains idx (field_val k f)) fs)"
  by (induction fs) (simp_all add: getitem_contains field_val_def uid_in_def)

lemma filterE_uid_not_in:
  "\<forall>f\<in>set fs. contains (attributes f) k \<Longrightarrow>
   filterE (uid_not_in k idx) fs = Inr (filter (\<lambda>f. \<not> contains idx (field_val k f)) fs)"
  by (induction fs) (simp_all add: getitem_contains field_val_def uid_not_in_def)

lemma build_index_fields:
  "build_index uf ofl fs acc = Inr idx \<Longrightarrow>
   \<forall>f\<in>set fs. contains (attributes f) uf \<and> contains (attributes f) ofl"
  by (induction fs arbitrary: acc)
     (auto simp: getitem_def contains_def split: option.splits)

lemma build_index_distinct:
  "build_index uf ofl fs acc = Inr idx \<Longrightarrow> distinct (map fst acc) \<Longrightarrow> distinct (map fst idx)"
  by (induction fs arbitrary: acc)
     (auto simp: distinct_update split: sum.splits)

lemma last_with_uid_Nil [simp]: "last_with_uid uf u [] = None"
  by (simp add: last_with_uid_def)

lemma last_with_uid_Cons:
  "last_with_uid uf u (f # fs) =
     (case last_with_uid uf u fs of
        Some g \<Rightarrow> Some g
      | None \<Rightarrow> if getitem (attributes f) uf = Inr u then Some f else None)"
  by (auto simp: last_with_uid_def split: list.splits)

lemma build_index_lookup:
  "build_index uf ofl fs acc = Inr idx \<Longrightarrow>
   map_of idx u =
     (case last_with_uid uf u fs of None \<Rightarrow> map_of acc u | Some f \<Rightarrow> Some (field_val ofl f))"
proof (induction fs arbitrary: acc)
  case Nil
  then show ?case by simp
next
  case (Cons f fs)
  from Cons.prems obtain a b where
    a: "getitem (attributes f) uf = Inr a" and b: "getitem (attributes f) ofl = Inr b"
    and r: "build_index uf ofl fs (AList.update a b acc) = Inr idx"
    by (auto split: sum.splits)
  from b have fv: "field_val ofl f = b"
    by (simp add: field_val_def getitem_Inr_iff)
  show ?case
    using Cons.IH [OF r] a fv
    by (auto simp: last_with_uid_Cons update_conv' split: option.splits)
qed

lemma row_feature_oid:
  "contains (attributes (row_feature so names r)) so \<Longrightarrow>
   field_val so (row_feature so names r) = IntV (oid r)"
  by (auto simp: contains_def field_val_def row_feature_def map_of_filter_keys update_conv'
        split: if_splits)

lemma listed_oid:
  assumes "\<forall>f\<in>set fs. \<exists>i. field_val so f = IntV i"
    and "f \<in> set fs" and "field_val so f = IntV j"
  shows "str_int j \<in> set (comma_separated (oids_str so fs))"
proof -
  have "map str (map (field_val so) fs) =
        map str_int (map (\<lambda>f. case field_val so f of IntV i \<Rightarrow> i | _ \<Rightarrow> 0) fs)"
    using assms(1) by (induction fs) auto
  then have "comma_separated (oids_str so fs) =
     map str_int (map (\<lambda>f. case field_val so f of IntV i \<Rightarrow> i | _ \<Rightarrow> 0) fs)"
    by (simp only: oids_str_def comma_separated_str_int)
  with assms(2,3) show ?thesis
    by force
qed

section \<open>The constructor\<close>

lemma build_auto_attr_mapper_frame:
  "build_auto_attr_mapper self = (r, self') \<Longrightarrow>
     src_feat_layer self' = src_feat_layer self \<and> tgt_feat_layer self' = tgt_feat_layer self \<and>
     cust_attr_mapper self' = cust_attr_mapper self \<and>
     (\<exists>cs. remote_calls self' = remote_calls self @ cs \<and>
           set cs \<subseteq> {(Source, Definition), (Target, Definition)})"
  by (auto simp: build_auto_attr_mapper_def bind_def ret_def call_definition_def sent_def
        layer_definition_def split: if_splits)

lemma build_auto_attr_mapper_ok:
  "\<not> refuses (src_feat_layer self) Definition \<Longrightarrow> \<not> refuses (tgt_feat_layer self) Definition \<Longrightarrow>
   \<exists>m. build_auto_attr_mapper self =
     (Inr m, self\<lparr>remote_calls := remote_calls self @ [(Source, Definition), (Target, Definition)]\<rparr>)"
  by (simp add: build_auto_attr_mapper_def bind_def ret_def call_definition_def sent_def
        layer_definition_def)

section \<open>The comparison, step by step\<close>

lemma bind_reset:
  "bind reset_comp_features f self = f () (self\<lparr>comp_features := empty_comp\<rparr>)"
  by (simp add: bind_def reset_comp_features_def)

lemma fetch_features_eq:
  "fetch_features self =
     (let self0 = self\<lparr>comp_features := empty_comp\<rparr>;
          d1 = (Source, Definition);
          d2 = (Target, Definition);
          q1 = (Source, QueryFeaturesBatch ''1=1'' (src_out_fields self));
          q2 = (Target, QueryFeaturesBatch ''1=1'' (tgt_out_fields self))
      in if refuses (src_feat_layer self) Definition
         then (Inl RemoteOperationError, self0\<lparr>remote_calls := remote_calls self @ [d1]\<rparr>)
         else if refuses (tgt_feat_layer self) Definition
         then (Inl RemoteOperationError, self0\<lparr>remote_calls := remote_calls self @ [d1, d2]\<rparr>)
         else
           (case query_features_batch (src_feat_layer self) ''1=1'' (src_out_fields self) of
              Inl e \<Rightarrow> (Inl e, self0\<lparr>remote_calls := remote_calls self @ [d1, d2, q1]\<rparr>)
            | Inr sf \<Rightarrow>
                (case query_features_batch (tgt_feat_layer self) ''1=1'' (tgt_out_fields self) of
                   Inl e \<Rightarrow> (Inl e, self0\<lparr>remote_calls := remote_calls self @ [d1, d2, q1, q2]\<rparr>)
                 | Inr tf \<Rightarrow>
                     (Inr (objectIdField (src_feat_layer self), objectIdField (tgt_feat_layer self),
                           sf, tf),
                      self0\<lparr>remote_calls := remote_calls self @ [d1, d2, q1, q2]\<rparr>))))"
  by (simp add: fetch_features_def bind_def reset_comp_features_def get_attr_map_def
        call_definition_def call_query_features_batch_def layer_definition_def sent_def ret_def
        src_out_fields_def tgt_out_fields_def effective_map_def Let_def
      split: sum.splits)

lemma classify_features_eq:
  "classify_features su tu so to sf tf self =
     (case build_index su so sf [] of
        Inl e \<Rightarrow> (Inl e, self)
      | Inr si \<Rightarrow>
          (case build_index tu to tf [] of
             Inl e \<Rightarrow>
               (Inl e, self\<lparr>comp_features :=
                              (comp_features self)\<lparr>src := (src (comp_features self))\<lparr>index := si\<rparr>\<rparr>\<rparr>)
           | Inr ti \<Rightarrow> (Inr (), self\<lparr>comp_features := comp_of su tu sf tf si ti\<rparr>)))"
proof (cases "build_index su so sf []")
  case (Inl e)
  then show ?thesis
    by (simp add: classify_features_def bind_def lift_def)
next
  case si: (Inr si)
  show ?thesis
  proof (cases "build_index tu to tf []")
    case (Inl e)
    with si show ?thesis
      by (simp add: classify_features_def bind_def lift_def)
  next
    case ti: (Inr ti)
    from build_index_fields [OF si] have s: "\<forall>f\<in>set sf. contains (attributes f) su"
      by blast
    from build_index_fields [OF ti] have t: "\<forall>f\<in>set tf. contains (attributes f) tu"
      by blast
    show ?thesis
      using si ti
      by (simp add: classify_features_def bind_def lift_def comp_of_def
            filterE_uid_in [OF s] filterE_uid_not_in [OF s]
            filterE_uid_in [OF t] filterE_uid_not_in [OF t])
  qed
qed

lemma classify_features_frame:
  "classify_features su tu so to sf tf self = (r, self') \<Longrightarrow>
     remote_calls self' = remote_calls self \<and> src_feat_layer self' = src_feat_layer self \<and>
     tgt_feat_layer self' = tgt_feat_layer self \<and> cust_attr_mapper self' = cust_attr_mapper self \<and>
     auto_attr_mapper self' = auto_attr_mapper self"
  by (auto simp: classify_features_eq split: sum.splits)

lemma comp_features_Inr:
  assumes "fetch_features self = (Inr (so, to, sf, tf), self1)"
    and "FeatureImporter_comp_features su tu self = (Inr (), self')"
  obtains si ti where
    "build_index su so sf [] = Inr si" "build_index tu to tf [] = Inr ti"
    "self' = self1\<lparr>comp_features := comp_of su tu sf tf si ti\<rparr>"
  using assms
  by (auto simp: FeatureImporter_comp_features_def bind_def classify_features_eq
        split: sum.splits)

lemma comp_features_fetched:
  assumes "FeatureImporter_comp_features su tu self = (Inr (), self')"
  obtains so to sf tf self1 where "fetch_features self = (Inr (so, to, sf, tf), self1)"
  using assms
  by (auto simp: FeatureImporter_comp_features_def bind_def split: sum.splits prod.splits)


lemma comp_features_success:
  assumes "FeatureImporter_comp_features su tu self = (Inr (), s1)"
  obtains sf tf si ti where
    "\<not> refuses (src_feat_layer self) Definition" "\<not> refuses (tgt_feat_layer self) Definition"
    "query_features_batch (src_feat_layer self) ''1=1'' (src_out_fields self) = Inr sf"
    "query_features_batch (tgt_feat_layer self) ''1=1'' (tgt_out_fields self) = Inr tf"
    "build_index su (objectIdField (src_feat_layer self)) sf [] = Inr si"
    "build_index tu (objectIdField (tgt_feat_layer self)) tf [] = Inr ti"
    "s1 = self\<lparr>comp_features := comp_of su tu sf tf si ti,
              remote_calls := remote_calls self @
                [(Source, Definition), (Target, Definition),
                 (Source, QueryFeaturesBatch ''1=1'' (src_out_fields self)),
                 (Target, QueryFeaturesBatch ''1=1'' (tgt_out_fields self))]\<rparr>"
proof -
  from assms obtain so to sf tf self1 where
    f: "fetch_features self = (Inr (so, to, sf, tf), self1)"
    by (rule comp_features_fetched)
  from f [unfolded fetch_features_eq Let_def] have
    a: "\<not> refuses (src_feat_layer self) Definition" "\<not> refuses (tgt_feat_layer self) Definition"
      "query_features_batch (src_feat_layer self) ''1=1'' (src_out_fields self) = Inr sf"
      "query_features_batch (tgt_feat_layer self) ''1=1'' (tgt_out_fields self) = Inr tf"
      "so = objectIdField (src_feat_layer self)" "to = objectIdField (tgt_feat_layer self)"
      "self1 = self\<lparr>comp_features := empty_comp,
              remote_calls := remote_calls self @
                [(Source, Definition), (Target, Definition),
                 (Source, QueryFeaturesBatch ''1=1'' (src_out_fields self)),
                 (Target, QueryFeaturesBatch ''1=1'' (tgt_out_fields self))]\<rparr>"
    by (auto split: if_splits sum.splits)
  from f assms obtain si ti where
    b: "build_index su so sf [] = Inr si" "build_index tu to tf [] = Inr ti"
      "s1 = self1\<lparr>comp_features := comp_of su tu sf tf si ti\<rparr>"
    by (rule comp_features_Inr)
  show thesis
    using a b by (intro that [of sf tf si ti]) simp_all
qed

lemma comp_features_frame:
  assumes "FeatureImporter_comp_features su tu self = (r, s1)"
  shows "src_feat_layer s1 = src_feat_layer self \<and> tgt_feat_layer s1 = tgt_feat_layer self \<and>
     cust_attr_mapper s1 = cust_attr_mapper self \<and> auto_attr_mapper s1 = auto_attr_mapper self \<and>
     (\<exists>cs. remote_calls s1 = remote_calls self @ cs \<and> (\<forall>c\<in>set cs. is_read (snd c)))"
proof -
  obtain r0 s0 where f: "fetch_features self = (r0, s0)"
    by (cases "fetch_features self") auto
  from f [unfolded fetch_features_eq Let_def]
  have s0: "src_feat_layer s0 = src_feat_layer self \<and> tgt_feat_layer s0 = tgt_feat_layer self \<and>
     cust_attr_mapper s0 = cust_attr_mapper self \<and> auto_attr_mapper s0 = auto_attr_mapper self \<and>
     (\<exists>cs. remote_calls s0 = remote_calls self @ cs \<and> (\<forall>c\<in>set cs. is_read (snd c)))"
    by (auto split: if_splits sum.splits)
  show ?thesis
  proof (cases r0)
    case (Inl e)
    with f assms s0 show ?thesis
      by (simp add: FeatureImporter_comp_features_def bind_def)
  next
    case (Inr x)
    obtain so to sf tf where x: "x = (so, to, sf, tf)"
      by (cases x) auto
    from f assms Inr x have "classify_features su tu so to sf tf s0 = (r, s1)"
      by (simp add: FeatureImporter_comp_features_def bind_def)
    from classify_features_frame [OF this] s0 show ?thesis
      by simp
  qed
qed

lemma comp_of_src_fields:
  "build_index su so sf [] = Inr si \<Longrightarrow>
   (\<forall>f\<in>set (unmatched (src (comp_of su tu sf tf si ti))). contains (attributes f) so) \<and>
   (\<forall>f\<in>set (matched (src (comp_of su tu sf tf si ti))). contains (attributes f) so)"
  by (auto simp: comp_of_def dest!: build_index_fields)

section \<open>The import, step by step\<close>

lemma call_add_features_batch_eq:
  "call_add_features_batch Target X s =
     (if refuses (tgt_feat_layer s) (AddFeaturesBatch X)
      then (Inl RemoteOperationError, sent Target (AddFeaturesBatch X) s)
      else (Inr (), (sent Target (AddFeaturesBatch X) s)
                      \<lparr>tgt_feat_layer := (tgt_feat_layer s)
                         \<lparr>rows := rows (tgt_feat_layer s) @ new_rows (tgt_feat_layer s) X\<rparr>\<rparr>))"
  by (simp add: call_add_features_batch_def add_features_batch_def sent_def)

lemma call_delete_features_eq:
  "call_delete_features Source ids s =
     (if refuses (src_feat_layer s) (DeleteFeatures ids)
      then (Inl RemoteOperationError, sent Source (DeleteFeatures ids) s)
      else (Inr (), (sent Source (DeleteFeatures ids) s)
                      \<lparr>src_feat_layer := (src_feat_layer s)
                         \<lparr>rows := filter (\<lambda>r. str_int (oid r) \<notin> set (comma_separated ids))
                                    (rows (src_feat_layer s))\<rparr>\<rparr>))"
  by (simp add: call_delete_features_def delete_features_def sent_def)

lemma import_add_features_eq:
  assumes "\<forall>f\<in>set fs. contains (attributes f) so"
  shows "import_add_features m so fs s =
     (if fs = [] then (Inr (), s)
      else bind (call_add_features_batch Target (insert_batch m so fs))
             (\<lambda>_. call_delete_features Source (oids_str so fs)) s)"
  by (simp add: import_add_features_def mapE_getitem [OF assms] bind_def lift_def ret_def
        insert_batch_def oids_str_def Let_def)

lemma import_old_features_eq:
  assumes "\<forall>f\<in>set fs. contains (attributes f) so"
  shows "import_old_features so fs s =
     (if fs = [] then (Inr (), s) else call_delete_features Source (oids_str so fs) s)"
  by (simp add: import_old_features_def mapE_getitem [OF assms] bind_def lift_def ret_def
        oids_str_def Let_def)

lemma import_features_eq:
  "import_features su tu self =
     (case FeatureImporter_comp_features su tu self of
        (Inl e, s1) \<Rightarrow> (Inl e, s1)
      | (Inr _, s1) \<Rightarrow>
          if refuses (src_feat_layer s1) Definition
          then (Inl RemoteOperationError, sent Source Definition s1)
          else if refuses (tgt_feat_layer s1) Definition
          then (Inl RemoteOperationError, sent Target Definition (sent Source Definition s1))
          else
            bind (import_add_features (effective_map s1) (objectIdField (src_feat_layer s1))
                    (unmatched (src (comp_features s1))))
              (\<lambda>_. import_old_features (objectIdField (src_feat_layer s1))
                      (matched (src (comp_features s1))))
              (sent Target Definition (sent Source Definition s1)))"
  by (simp add: import_features_def bind_def get_attr_map_def call_definition_def
        layer_definition_def sent_def effective_map_def Let_def
      split: sum.splits prod.splits)

lemma import_after_comp:
  assumes "FeatureImporter_comp_features su tu self = (Inr (), s1)"
  shows "import_features su tu self =
     bind (\<lambda>s. if unmatched (src (comp_features s1)) = [] then (Inr (), s)
                else bind (call_add_features_batch Target
                             (insert_batch (effective_map self) (objectIdField (src_feat_layer self))
                                (unmatched (src (comp_features s1)))))
                       (\<lambda>_. call_delete_features Source
                               (oids_str (objectIdField (src_feat_layer self))
                                  (unmatched (src (comp_features s1))))) s)
          (\<lambda>_ s. if matched (src (comp_features s1)) = [] then (Inr (), s)
                   else call_delete_features Source
                          (oids_str (objectIdField (src_feat_layer self))
                             (matched (src (comp_features s1)))) s)
          (sent Target Definition (sent Source Definition s1))"
proof -
  from assms obtain sf tf si ti where
    a: "\<not> refuses (src_feat_layer self) Definition" "\<not> refuses (tgt_feat_layer self) Definition"
    and si: "build_index su (objectIdField (src_feat_layer self)) sf [] = Inr si"
    and s1: "s1 = self\<lparr>comp_features := comp_of su tu sf tf si ti,
              remote_calls := remote_calls self @
                [(Source, Definition), (Target, Definition),
                 (Source, QueryFeaturesBatch ''1=1'' (src_out_fields self)),
                 (Target, QueryFeaturesBatch ''1=1'' (tgt_out_fields self))]\<rparr>"
    by (rule comp_features_success)
  have l: "src_feat_layer s1 = src_feat_layer self" "tgt_feat_layer s1 = tgt_feat_layer self"
    "effective_map s1 = effective_map self" "comp_features s1 = comp_of su tu sf tf si ti"
    by (simp_all add: s1 effective_map_def)
  note flds = comp_of_src_fields [OF si, of tu tf ti]
  have u: "import_add_features m (objectIdField (src_feat_layer self))
             (unmatched (src (comp_of su tu sf tf si ti))) =
           (\<lambda>s. if unmatched (src (comp_of su tu sf tf si ti)) = [] then (Inr (), s)
      else bind (call_add_features_batch Target
                   (insert_batch m (objectIdField (src_feat_layer self))
                      (unmatched (src (comp_of su tu sf tf si ti)))))
             (\<lambda>_. call_delete_features Source
                     (oids_str (objectIdField (src_feat_layer self))
                        (unmatched (src (comp_of su tu sf tf si ti))))) s)" for m
    using flds by (intro ext import_add_features_eq) blast
  have o: "import_old_features (objectIdField (src_feat_layer self))
             (matched (src (comp_of su tu sf tf si ti))) =
           (\<lambda>s. if matched (src (comp_of su tu sf tf si ti)) = [] then (Inr (), s)
                 else call_delete_features Source
                        (oids_str (objectIdField (src_feat_layer self))
                           (matched (src (comp_of su tu sf tf si ti)))) s)"
    using flds by (intro ext import_old_features_eq) blast
  show ?thesis
    unfolding import_features_eq assms
    using a by (simp add: l u o cong: if_cong)
qed

lemma import_drains_source:
  assumes run: "import_features su tu self = (Inr (), self1)"
  shows "rows (src_feat_layer self1) = []"
proof -
  from run obtain s1 where comp: "FeatureImporter_comp_features su tu self = (Inr (), s1)"
    by (auto simp: import_features_eq split: prod.splits sum.splits)
  let ?so = "objectIdField (src_feat_layer self)"
  let ?F = "row_feature ?so (comma_separated (src_out_fields self))"
  let ?rows = "rows (src_feat_layer self)"
  from comp obtain sf tf si ti where
    q: "query_features_batch (src_feat_layer self) ''1=1'' (src_out_fields self) = Inr sf"
    and si: "build_index su ?so sf [] = Inr si"
    and s1: "s1 = self\<lparr>comp_features := comp_of su tu sf tf si ti,
              remote_calls := remote_calls self @
                [(Source, Definition), (Target, Definition),
                 (Source, QueryFeaturesBatch ''1=1'' (src_out_fields self)),
                 (Target, QueryFeaturesBatch ''1=1'' (tgt_out_fields self))]\<rparr>"
    by (rule comp_features_success)
  from q have sf: "sf = map ?F ?rows"
    by (auto simp: query_features_batch_def split: if_splits)
  let ?unm = "unmatched (src (comp_features s1))"
  let ?mat = "matched (src (comp_features s1))"
  have part: "f \<in> set sf \<Longrightarrow> f \<in> set ?unm \<or> f \<in> set ?mat" for f
    by (auto simp: s1 comp_of_def)
  have sub: "set ?unm \<subseteq> set sf" "set ?mat \<subseteq> set sf"
    by (auto simp: s1 comp_of_def)
  have oid: "field_val ?so (?F r) = IntV (oid r)" if "r \<in> set ?rows" for r
  proof -
    from that have "?F r \<in> set sf"
      by (simp add: sf)
    with build_index_fields [OF si] have "contains (attributes (?F r)) ?so"
      by blast
    then show ?thesis
      by (rule row_feature_oid)
  qed
  have ints: "\<forall>f\<in>set sf. \<exists>i. field_val ?so f = IntV i"
    using oid by (auto simp: sf)
  have gone: "(?unm \<noteq> [] \<and> str_int (oid r) \<in> set (comma_separated (oids_str ?so ?unm))) \<or>
              (?mat \<noteq> [] \<and> str_int (oid r) \<in> set (comma_separated (oids_str ?so ?mat)))"
    if r: "r \<in> set ?rows" for r
  proof -
    from r have "?F r \<in> set sf"
      by (simp add: sf)
    from part [OF this] show ?thesis
    proof
      assume m: "?F r \<in> set ?unm"
      from ints sub(1) have "\<forall>f\<in>set ?unm. \<exists>i. field_val ?so f = IntV i"
        by blast
      from listed_oid [OF this m oid [OF r]] m show ?thesis
        by auto
    next
      assume m: "?F r \<in> set ?mat"
      from ints sub(2) have "\<forall>f\<in>set ?mat. \<exists>i. field_val ?so f = IntV i"
        by blast
      from listed_oid [OF this m oid [OF r]] m show ?thesis
        by auto
    qed
  qed
  have fr: "src_feat_layer s1 = src_feat_layer self"
    by (simp add: s1)
  from run [unfolded import_after_comp [OF comp]]
  have "rows (src_feat_layer self1) =
     filter (\<lambda>r. ?mat = [] \<or> str_int (oid r) \<notin> set (comma_separated (oids_str ?so ?mat)))
       (filter (\<lambda>r. ?unm = [] \<or> str_int (oid r) \<notin> set (comma_separated (oids_str ?so ?unm))) ?rows)"
    by (auto simp: bind_def call_add_features_batch_eq call_delete_features_eq sent_def fr
          split: if_splits)
  also have "\<dots> = []"
    using gone by (auto simp: filter_empty_conv)
  finally show ?thesis .
qed

lemma import_from_empty_source:
  assumes empty: "rows (src_feat_layer self) = []"
    and run: "import_features su tu self = (r, self')"
  shows "src_feat_layer self' = src_feat_layer self \<and> tgt_feat_layer self' = tgt_feat_layer self"
proof -
  obtain r1 s1 where comp: "FeatureImporter_comp_features su tu self = (r1, s1)"
    by (cases "FeatureImporter_comp_features su tu self") auto
  from comp_features_frame [OF comp] have
    fr: "src_feat_layer s1 = src_feat_layer self" "tgt_feat_layer s1 = tgt_feat_layer self"
    by simp_all
  show ?thesis
  proof (cases r1)
    case (Inl e)
    with run comp fr show ?thesis
      by (simp add: import_features_eq)
  next
    case (Inr u)
    with comp have comp': "FeatureImporter_comp_features su tu self = (Inr (), s1)"
      by simp
    from comp' obtain sf tf si ti where
      q: "query_features_batch (src_feat_layer self) ''1=1'' (src_out_fields self) = Inr sf"
      and s1: "comp_features s1 = comp_of su tu sf tf si ti"
      by (rule comp_features_success) simp
    from q empty have "sf = []"
      by (auto simp: query_features_batch_def split: if_splits)
    with s1 have "unmatched (src (comp_features s1)) = []" "matched (src (comp_features s1)) = []"
      by (simp_all add: comp_of_def)
    with run [unfolded import_after_comp [OF comp']] fr show ?thesis
      by (auto simp: bind_def sent_def)
  qed
qed

section \<open>The example, evaluated\<close>

lemma ex_constructed:
  "FeatureImporter_init ex_src ex_tgt (AttributeMapperObj ex_cust_mapper) = Inr ex_importer"
  by (simp add: FeatureImporter_init_def build_auto_attr_mapper_def bind_def ret_def
        call_definition_def sent_def layer_definition_def ex_src_def ex_tgt_def
        AttributeMapper_def add_mapping_def ex_importer_def ex_importer_on_def)

lemma ex_on_fields:
  "src_feat_layer (ex_importer_on f) = ex_src"
  "tgt_feat_layer (ex_importer_on f) = ex_tgt\<lparr>refuses := f\<rparr>"
  "remote_calls (ex_importer_on f) = [(Source, Definition), (Target, Definition)]"
  by (simp_all add: ex_importer_on_def)

lemma ex_oid_field: "objectIdField ex_src = ''OBJECTID''"
  by (simp add: ex_src_def)

lemma ex_effective_map:
  "effective_map (ex_importer_on f) =
     [(''OBJECTID'', ''OBJECTID''), (''uid'', ''uid''), (''cust_name'', ''customer_name'')]"
  by (simp add: effective_map_def ex_importer_on_def ex_cust_mapper_def merge_dicts_def
        contains_def)

lemma ex_sorted_map:
  "sort [(''OBJECTID'', ''OBJECTID''), (''uid'', ''uid''), (''cust_name'', ''customer_name'')] =
     [(''OBJECTID'', ''OBJECTID''), (''cust_name'', ''customer_name''), (''uid'', ''uid'')]"
  by (simp add: less_eq_prod_def less_char_def less_eq_char_def)

lemma ex_out_fields:
  "src_out_fields (ex_importer_on f) = ''OBJECTID, cust_name, uid''"
  "tgt_out_fields (ex_importer_on f) = ''OBJECTID, customer_name, uid''"
  by (simp_all add: src_out_fields_def tgt_out_fields_def ex_effective_map ex_sorted_map)

lemma ex_comma_separated:
  "comma_separated ''OBJECTID, cust_name, uid'' = [''OBJECTID'', ''cust_name'', ''uid'']"
  "comma_separated ''OBJECTID, customer_name, uid'' = [''OBJECTID'', ''customer_name'', ''uid'']"
  "comma_separated ''7, 13'' = [''7'', ''13'']"
  "comma_separated ''12'' = [''12'']"
  by (simp_all add: comma_separated_def)

lemma ex_fetch:
  assumes "\<not> f Definition" "\<not> f (QueryFeaturesBatch ''1=1'' ''OBJECTID, customer_name, uid'')"
  shows "fetch_features (ex_importer_on f) =
     (Inr (''OBJECTID'', ''OBJECTID'', ex_src_fetched, ex_tgt_fetched),
      (ex_importer_on f)\<lparr>comp_features := empty_comp, remote_calls := ex_comp_calls\<rparr>)"
  using assms
  by (simp add: fetch_features_eq Let_def ex_out_fields query_features_batch_def
        ex_comma_separated row_feature_def ex_on_fields ex_src_def ex_tgt_def
        ex_src_fetched_def ex_tgt_fetched_def ex_comp_calls_def)

lemma ex_compare:
  assumes "\<not> f Definition" "\<not> f (QueryFeaturesBatch ''1=1'' ''OBJECTID, customer_name, uid'')"
  shows "FeatureImporter_comp_features ''uid'' ''uid'' (ex_importer_on f) =
     (Inr (), (ex_importer_on f)\<lparr>comp_features := ex_comp, remote_calls := ex_comp_calls\<rparr>)"
  by (simp add: FeatureImporter_comp_features_def bind_def ex_fetch [OF assms]
        classify_features_eq)
     (simp add: ex_src_fetched_def ex_tgt_fetched_def getitem_def comp_of_def ex_comp_def
        contains_def field_val_def)

lemma ex_str: "str_int 7 = ''7''" "str_int 13 = ''13''" "str_int 12 = ''12''"
  by (simp_all add: str_int_def str_nat.simps digit_char_def)

lemma ex_insert_batch:
  "insert_batch (effective_map (ex_importer_on f)) ''OBJECTID'' (unmatched (src ex_comp)) =
   ex_inserted"
  by (simp add: insert_batch_def ex_effective_map ex_comp_def ex_src_fetched_def
        FeatureProcessor_def replace_attributes_def remove_attributes_def rename_keys_def
        ex_inserted_def)

lemma ex_oids_str:
  "oids_str ''OBJECTID'' (unmatched (src ex_comp)) = ''7, 13''"
  "oids_str ''OBJECTID'' (matched (src ex_comp)) = ''12''"
  by (simp_all add: oids_str_def ex_comp_def ex_src_fetched_def field_val_def ex_str)

lemma ex_nonempty: "unmatched (src ex_comp) \<noteq> []" "matched (src ex_comp) \<noteq> []"
  by (simp_all add: ex_comp_def)

lemma ex_compared_eq:
  "FeatureImporter_comp_features ''uid'' ''uid'' ex_importer = (Inr (), ex_compared)"
  unfolding ex_importer_def ex_compared_def by (rule ex_compare) simp_all

lemma ex_import:
  "import_features ''uid'' ''uid'' ex_importer = (Inr (), ex_imported)"
  unfolding import_after_comp [OF ex_compared_eq]
  by (simp add: ex_compared_def ex_nonempty ex_importer_def ex_on_fields ex_oid_field
        ex_insert_batch ex_oids_str bind_def call_add_features_batch_eq
        call_delete_features_eq sent_def ex_comma_separated
      cong: if_cong)
     (simp add: ex_src_def ex_tgt_def new_rows_def fresh_oid_def ex_inserted_def ex_str
        ex_importer_on_def ex_oids_str ex_comma_separated ex_imported_def ex_importer_def)

lemma ex_import_rejected:
  "import_features ''uid'' ''uid'' ex_rejecting =
     (Inl RemoteOperationError,
      ex_rejecting\<lparr>comp_features := ex_comp,
                   remote_calls := ex_comp_calls @
                     [(Source, Definition), (Target, Definition),
                      (Target, AddFeaturesBatch ex_inserted)]\<rparr>)"
proof -
  have c: "FeatureImporter_comp_features ''uid'' ''uid'' ex_rejecting =
     (Inr (), ex_rejecting\<lparr>comp_features := ex_comp, remote_calls := ex_comp_calls\<rparr>)"
    unfolding ex_rejecting_def by (rule ex_compare) simp_all
  show ?thesis
    unfolding import_after_comp [OF c]
    by (simp add: ex_nonempty ex_rejecting_def ex_on_fields ex_oid_field ex_insert_batch
          bind_def call_add_features_batch_eq sent_def
        cong: if_cong)
qed


section \<open>Idempotence of the import\<close>

text \<open>
  Claim C1. When a first \<open>import_features\<close> has returned, a second one with the same
  unique id fields, started from the state the first one left, leaves the records of the
  target as they are, whatever it returns; and the source then holds no record at all,
  so none whose unique id is a key of the target's index.
\<close>

theorem import_idempotent:
  assumes "import_features su tu self = (Inr (), self1)"
    and "import_features su tu self1 = (r, self2)"
  shows "rows (tgt_feat_layer self2) = rows (tgt_feat_layer self1) \<and>
     rows (src_feat_layer self2) = [] \<and>
     filter (\<lambda>row. \<exists>u. getitem (row_attributes row) su = Inr u \<and>
                        contains (index (tgt (comp_features self2))) u)
       (rows (src_feat_layer self2)) = []"
proof -
  from assms(1) have e: "rows (src_feat_layer self1) = []"
    by (rule import_drains_source)
  from import_from_empty_source [OF e assms(2)] e show ?thesis
    by simp
qed

theorem import_idempotent_witness:
  "import_features ''uid'' ''uid'' ex_importer = (Inr (), ex_imported) \<and>
   rows (tgt_feat_layer (snd (import_features ''uid'' ''uid'' ex_imported))) =
     rows (tgt_feat_layer ex_imported) \<and>
   length (rows (tgt_feat_layer ex_imported)) = 3 \<and>
   rows (src_feat_layer (snd (import_features ''uid'' ''uid'' ex_imported))) = []"
proof -
  have second: "import_features ''uid'' ''uid'' ex_imported =
     (fst (import_features ''uid'' ''uid'' ex_imported),
      snd (import_features ''uid'' ''uid'' ex_imported))"
    by simp
  from import_idempotent [OF ex_import second] ex_import show ?thesis
    by (simp add: ex_imported_def ex_tgt_def)
qed

section \<open>The partition of the fetched records\<close>

text \<open>
  Claim C2. After a comparison that returns, on each side every fetched record is in
  exactly one of the lists \<open>matched\<close> and \<open>unmatched\<close>: the two lists together are the
  fetched list as a multiset, they share no record, and their lengths add up to the
  number of fetched records.
\<close>

theorem partition_completeness:
  assumes "fetch_features self = (Inr (so, to, sf, tf), self1)"
    and "FeatureImporter_comp_features su tu self = (Inr (), self')"
  shows
    "mset (matched (src (comp_features self'))) + mset (unmatched (src (comp_features self'))) = mset sf \<and>
     set (matched (src (comp_features self'))) \<inter> set (unmatched (src (comp_features self'))) = {} \<and>
     length (matched (src (comp_features self'))) + length (unmatched (src (comp_features self'))) = length sf \<and>
     mset (matched (tgt (comp_features self'))) + mset (unmatched (tgt (comp_features self'))) = mset tf \<and>
     set (matched (tgt (comp_features self'))) \<inter> set (unmatched (tgt (comp_features self'))) = {} \<and>
     length (matched (tgt (comp_features self'))) + length (unmatched (tgt (comp_features self'))) = length tf"
proof -
  from assms obtain si ti where
    self': "self' = self1\<lparr>comp_features := comp_of su tu sf tf si ti\<rparr>"
    by (rule comp_features_Inr)
  have part: "mset (filter P xs) + mset (filter (\<lambda>x. \<not> P x) xs) = mset xs"
    for P and xs :: "'a feature list"
    by (induction xs) simp_all
  have len: "length (filter P xs) + length (filter (\<lambda>x. \<not> P x) xs) = length xs"
    for P and xs :: "'a feature list"
    by (rule sum_length_filter_compl)
  show ?thesis
    unfolding self' by (auto simp: comp_of_def part len)
qed

theorem partition_completeness_witness:
  "fetch_features ex_importer =
     (Inr (''OBJECTID'', ''OBJECTID'', ex_src_fetched, ex_tgt_fetched),
      ex_importer\<lparr>comp_features := empty_comp, remote_calls := ex_comp_calls\<rparr>) \<and>
   FeatureImporter_comp_features ''uid'' ''uid'' ex_importer = (Inr (), ex_compared) \<and>
   length (matched (src (comp_features ex_compared))) = 1 \<and>
   length (unmatched (src (comp_features ex_compared))) = 2 \<and>
   length ex_src_fetched = 3 \<and>
   length (matched (tgt (comp_features ex_compared))) = 1 \<and>
   length (unmatched (tgt (comp_features ex_compared))) = 0 \<and>
   length ex_tgt_fetched = 1"
proof -
  have f: "fetch_features ex_importer =
     (Inr (''OBJECTID'', ''OBJECTID'', ex_src_fetched, ex_tgt_fetched),
      ex_importer\<lparr>comp_features := empty_comp, remote_calls := ex_comp_calls\<rparr>)"
    unfolding ex_importer_def by (rule ex_fetch) simp_all
  from partition_completeness [OF f ex_compared_eq] f ex_compared_eq show ?thesis
    by (simp add: ex_compared_def ex_comp_def ex_src_fetched_def ex_tgt_fetched_def)
qed

section \<open>No deletion before the insert has succeeded\<close>

text \<open>
  Claim C3. When, in a run of \<open>import_features\<close>, the batch insert into the target is
  sent and refused, the run raises, it sends no delete request to the source, and it
  leaves both stores as they were.
\<close>

theorem no_premature_deletion:
  assumes run: "import_features su tu self = (r, self')"
    and add_sent:
      "(Target, AddFeaturesBatch fs) \<in> set (drop (length (remote_calls self)) (remote_calls self'))"
    and refused: "refuses (tgt_feat_layer self) (AddFeaturesBatch fs)"
  shows "r = Inl RemoteOperationError \<and>
     (\<forall>ids. (Source, DeleteFeatures ids) \<notin>
              set (drop (length (remote_calls self)) (remote_calls self'))) \<and>
     src_feat_layer self' = src_feat_layer self \<and>
     tgt_feat_layer self' = tgt_feat_layer self"
proof -
  obtain r1 s1 where comp: "FeatureImporter_comp_features su tu self = (r1, s1)"
    by (cases "FeatureImporter_comp_features su tu self") auto
  from comp_features_frame [OF comp] obtain cs where
    fr: "src_feat_layer s1 = src_feat_layer self" "tgt_feat_layer s1 = tgt_feat_layer self"
    and cs: "remote_calls s1 = remote_calls self @ cs" and rd: "\<forall>c\<in>set cs. is_read (snd c)"
    by blast
  from rd have no_add: "(Target, AddFeaturesBatch x) \<notin> set cs" for x
    by force
  from rd have no_del: "(Source, DeleteFeatures i) \<notin> set cs" for i
    by force
  show ?thesis
  proof (cases r1)
    case (Inl e)
    with run comp have "self' = s1"
      by (simp add: import_features_eq)
    with add_sent cs no_add show ?thesis
      by simp
  next
    case (Inr u)
    with comp have comp': "FeatureImporter_comp_features su tu self = (Inr (), s1)"
      by simp
    show ?thesis
      using run add_sent refused cs fr no_add no_del
      unfolding import_after_comp [OF comp']
      by (auto simp: bind_def call_add_features_batch_eq call_delete_features_eq sent_def
            split: if_splits)
  qed
qed

theorem no_premature_deletion_witness:
  "(Target, AddFeaturesBatch ex_inserted) \<in>
     set (drop (length (remote_calls ex_rejecting))
            (remote_calls (snd (import_features ''uid'' ''uid'' ex_rejecting)))) \<and>
   refuses (tgt_feat_layer ex_rejecting) (AddFeaturesBatch ex_inserted) \<and>
   fst (import_features ''uid'' ''uid'' ex_rejecting) = Inl RemoteOperationError \<and>
   drop (length (remote_calls ex_rejecting))
     (remote_calls (snd (import_features ''uid'' ''uid'' ex_rejecting))) =
     [(Source, Definition), (Target, Definition),
      (Source, QueryFeaturesBatch ''1=1'' ''OBJECTID, cust_name, uid''),
      (Target, QueryFeaturesBatch ''1=1'' ''OBJECTID, customer_name, uid''),
      (Source, Definition), (Target, Definition),
      (Target, AddFeaturesBatch ex_inserted)] \<and>
   rows (src_feat_layer (snd (import_features ''uid'' ''uid'' ex_rejecting))) = rows ex_src"
proof -
  have l: "remote_calls ex_rejecting = [(Source, Definition), (Target, Definition)]"
    "src_feat_layer ex_rejecting = ex_src"
    "refuses (tgt_feat_layer ex_rejecting) (AddFeaturesBatch ex_inserted)"
    by (simp_all add: ex_rejecting_def ex_on_fields)
  from no_premature_deletion [OF ex_import_rejected, of ex_inserted] show ?thesis
    by (simp add: ex_import_rejected l ex_comp_calls_def)
qed

section \<open>The queried fields\<close>




section \<open>The effective attribute map\<close>

text \<open>
  Claim C5. The effective map that \<open>__get_attr_map\<close> returns has, at a key of both the
  automatic and the custom map, the value of the custom map; at a key of only one of the
  two, the value of that one; and its keys are the keys of the two maps together.
\<close>

theorem effective_map_precedence:
  "\<exists>m. get_attr_map self = (Inr m, self) \<and>
     (\<forall>k. (contains (attribute_map (auto_attr_mapper self)) k \<and>
           contains (attribute_map (cust_attr_mapper self)) k \<longrightarrow>
             getitem m k = getitem (attribute_map (cust_attr_mapper self)) k) \<and>
          (contains (attribute_map (cust_attr_mapper self)) k \<and>
           \<not> contains (attribute_map (auto_attr_mapper self)) k \<longrightarrow>
             getitem m k = getitem (attribute_map (cust_attr_mapper self)) k) \<and>
          (contains (attribute_map (auto_attr_mapper self)) k \<and>
           \<not> contains (attribute_map (cust_attr_mapper self)) k \<longrightarrow>
             getitem m k = getitem (attribute_map (auto_attr_mapper self)) k)) \<and>
     fst ` set m =
       fst ` set (attribute_map (auto_attr_mapper self)) \<union>
       fst ` set (attribute_map (cust_attr_mapper self))"
proof -
  let ?a = "attribute_map (auto_attr_mapper self)"
  let ?c = "attribute_map (cust_attr_mapper self)"
  have "get_attr_map self = (Inr (merge_dicts ?a ?c), self)"
    by (simp add: get_attr_map_def)
  moreover have "fst ` set (merge_dicts ?a ?c) = fst ` set ?a \<union> fst ` set ?c"
    using keys_merge_dicts [of ?a ?c]
    by (metis image_Un list.set_map set_append set_remdups)
  ultimately show ?thesis
    by (simp add: getitem_merge_dicts)
qed

theorem effective_map_precedence_witness:
  "contains (attribute_map (auto_attr_mapper ex_overriding)) ''uid'' \<and>
   contains (attribute_map (cust_attr_mapper ex_overriding)) ''uid'' \<and>
   contains (attribute_map (cust_attr_mapper ex_overriding)) ''cust_name'' \<and>
   \<not> contains (attribute_map (auto_attr_mapper ex_overriding)) ''cust_name'' \<and>
   contains (attribute_map (auto_attr_mapper ex_overriding)) ''OBJECTID'' \<and>
   \<not> contains (attribute_map (cust_attr_mapper ex_overriding)) ''OBJECTID'' \<and>
   get_attr_map ex_overriding =
     (Inr [(''OBJECTID'', ''OBJECTID''), (''cust_name'', ''customer_name''), (''uid'', ''key'')],
      ex_overriding)"
  using effective_map_precedence [of ex_overriding]
  by (simp add: get_attr_map_def merge_dicts_def contains_def ex_overriding_def)

section \<open>What is inserted, and which ids are deleted\<close>



section \<open>Records that share a unique id\<close>

text \<open>
  Claim C7. After a comparison that returns, the index of each side has one entry for
  each unique id value, holding the object id of the last fetched record of that side
  with that value; a record is matched exactly when its unique id is a key of the other
  side's index, unmatched otherwise; so two records of one side with the same unique id
  are both matched or both unmatched.
\<close>

theorem duplicate_uid_policy:
  assumes "fetch_features self = (Inr (so, to, sf, tf), self1)"
    and "FeatureImporter_comp_features su tu self = (Inr (), self')"
  shows
    "distinct (map fst (index (src (comp_features self')))) \<and>
     (\<forall>u. map_of (index (src (comp_features self'))) u =
           map_option (field_val so) (last_with_uid su u sf)) \<and>
     matched (src (comp_features self')) =
       filter (\<lambda>f. contains (index (tgt (comp_features self'))) (field_val su f)) sf \<and>
     unmatched (src (comp_features self')) =
       filter (\<lambda>f. \<not> contains (index (tgt (comp_features self'))) (field_val su f)) sf \<and>
     (\<forall>f\<in>set sf. \<forall>g\<in>set sf. field_val su f = field_val su g \<longrightarrow>
        (f \<in> set (matched (src (comp_features self'))) \<longleftrightarrow>
         g \<in> set (matched (src (comp_features self')))) \<and>
        (f \<in> set (unmatched (src (comp_features self'))) \<longleftrightarrow>
         g \<in> set (unmatched (src (comp_features self'))))) \<and>
     distinct (map fst (index (tgt (comp_features self')))) \<and>
     (\<forall>u. map_of (index (tgt (comp_features self'))) u =
           map_option (field_val to) (last_with_uid tu u tf)) \<and>
     matched (tgt (comp_features self')) =
       filter (\<lambda>f. contains (index (src (comp_features self'))) (field_val tu f)) tf \<and>
     unmatched (tgt (comp_features self')) =
       filter (\<lambda>f. \<not> contains (index (src (comp_features self'))) (field_val tu f)) tf \<and>
     (\<forall>f\<in>set tf. \<forall>g\<in>set tf. field_val tu f = field_val tu g \<longrightarrow>
        (f \<in> set (matched (tgt (comp_features self'))) \<longleftrightarrow>
         g \<in> set (matched (tgt (comp_features self')))) \<and>
        (f \<in> set (unmatched (tgt (comp_features self'))) \<longleftrightarrow>
         g \<in> set (unmatched (tgt (comp_features self')))))"
proof -
  from assms obtain si ti where
    si: "build_index su so sf [] = Inr si" and ti: "build_index tu to tf [] = Inr ti" and
    self': "self' = self1\<lparr>comp_features := comp_of su tu sf tf si ti\<rparr>"
    by (rule comp_features_Inr)
  have c: "comp_features self' = comp_of su tu sf tf si ti"
    by (simp add: self')
  have d: "distinct (map fst si)" "distinct (map fst ti)"
    using build_index_distinct [OF si] build_index_distinct [OF ti] by simp_all
  have l: "map_of si u = map_option (field_val so) (last_with_uid su u sf)"
          "map_of ti u = map_option (field_val to) (last_with_uid tu u tf)" for u
    using build_index_lookup [OF si, of u] build_index_lookup [OF ti, of u]
    by (simp_all split: option.splits)
  show ?thesis
    unfolding c by (simp add: comp_of_def d l)
qed

theorem duplicate_uid_policy_witness:
  "fetch_features ex_importer =
     (Inr (''OBJECTID'', ''OBJECTID'', ex_src_fetched, ex_tgt_fetched),
      ex_importer\<lparr>comp_features := empty_comp, remote_calls := ex_comp_calls\<rparr>) \<and>
   FeatureImporter_comp_features ''uid'' ''uid'' ex_importer = (Inr (), ex_compared) \<and>
   field_val ''uid'' (ex_src_fetched ! 0) = IntV 1 \<and>
   field_val ''uid'' (ex_src_fetched ! 2) = IntV 1 \<and>
   field_val ''OBJECTID'' (ex_src_fetched ! 0) = IntV 7 \<and>
   field_val ''OBJECTID'' (ex_src_fetched ! 2) = IntV 13 \<and>
   index (src (comp_features ex_compared)) = [(IntV 1, IntV 13), (IntV 2, IntV 12)] \<and>
   unmatched (src (comp_features ex_compared)) = [ex_src_fetched ! 0, ex_src_fetched ! 2] \<and>
   matched (src (comp_features ex_compared)) = [ex_src_fetched ! 1]"
proof -
  have f: "fetch_features ex_importer =
     (Inr (''OBJECTID'', ''OBJECTID'', ex_src_fetched, ex_tgt_fetched),
      ex_importer\<lparr>comp_features := empty_comp, remote_calls := ex_comp_calls\<rparr>)"
    unfolding ex_importer_def by (rule ex_fetch) simp_all
  from duplicate_uid_policy [OF f ex_compared_eq] f ex_compared_eq show ?thesis
    by (simp add: ex_compared_def ex_comp_def ex_src_fetched_def field_val_def)
qed

section \<open>No validation in the constructor\<close>

text \<open>
  Claim C8, as the spec states it, fails: a custom map naming a field that neither
  schema has does not make the constructor fail. Here the constructor returns an
  importer that holds the map from \<open>ghost\<close> to \<open>phantom\<close>.
\<close>

theorem absent_field_accepted_counterexample:
  "''ghost'' \<notin> set (field_names ex_src) \<and> ''phantom'' \<notin> set (field_names ex_tgt) \<and>
   FeatureImporter_init ex_src ex_tgt (AttributeMapperObj ex_ghost_mapper) =
     Inr \<lparr>src_feat_layer = ex_src, tgt_feat_layer = ex_tgt,
          cust_attr_mapper = ex_ghost_mapper,
          auto_attr_mapper = \<lparr>attribute_map = [(''OBJECTID'', ''OBJECTID''), (''uid'', ''uid'')]\<rparr>,
          comp_features = empty_comp,
          remote_calls = [(Source, Definition), (Target, Definition)]\<rparr>"
  by (simp add: FeatureImporter_init_def build_auto_attr_mapper_def bind_def ret_def
        call_definition_def sent_def layer_definition_def ex_src_def ex_tgt_def
        AttributeMapper_def add_mapping_def)

text \<open>
  Claim C8, amended. The constructor checks the custom map against no schema: whatever
  fields the map names, when the two layers answer the schema request the constructor
  returns an importer that holds the map as given, and the two schema requests are all
  it has sent (no query, insert or delete).
\<close>

theorem custom_map_not_validated:
  "\<not> refuses s Definition \<and> \<not> refuses t Definition \<longrightarrow>
     (\<exists>self. FeatureImporter_init s t (AttributeMapperObj m) = Inr self \<and>
        cust_attr_mapper self = m \<and>
        remote_calls self = [(Source, Definition), (Target, Definition)])"
proof
  assume a: "\<not> refuses s Definition \<and> \<not> refuses t Definition"
  let ?self = "\<lparr>src_feat_layer = s, tgt_feat_layer = t, cust_attr_mapper = m,
         auto_attr_mapper = AttributeMapper, comp_features = empty_comp, remote_calls = []\<rparr>"
  from a build_auto_attr_mapper_ok [of ?self]
  obtain am where "build_auto_attr_mapper ?self =
     (Inr am, ?self\<lparr>remote_calls := remote_calls ?self @ [(Source, Definition), (Target, Definition)]\<rparr>)"
    by auto
  then show "\<exists>self. FeatureImporter_init s t (AttributeMapperObj m) = Inr self \<and>
        cust_attr_mapper self = m \<and>
        remote_calls self = [(Source, Definition), (Target, Definition)]"
    by (simp add: FeatureImporter_init_def)
qed

theorem custom_map_not_validated_witness:
  "\<not> refuses ex_src Definition \<and> \<not> refuses ex_tgt Definition \<and>
   (\<exists>self. FeatureImporter_init ex_src ex_tgt (AttributeMapperObj ex_ghost_mapper) = Inr self \<and>
      cust_attr_mapper self = ex_ghost_mapper \<and>
      remote_calls self = [(Source, Definition), (Target, Definition)])"
  using custom_map_not_validated [of ex_src ex_tgt ex_ghost_mapper]
  by (simp add: ex_src_def ex_tgt_def)

section \<open>The comparison state is recomputed\<close>

text \<open>
  Claim C9. \<open>__comp_features\<close> first replaces the comparison state by the empty one, so
  what it returns and the state it leaves do not depend on the comparison state it
  started from.
\<close>

theorem comp_state_recomputed:
  "snd (reset_comp_features self) = self\<lparr>comp_features := empty_comp\<rparr> \<and>
   FeatureImporter_comp_features su tu (self\<lparr>comp_features := c\<rparr>) =
   FeatureImporter_comp_features su tu (self\<lparr>comp_features := c'\<rparr>)"
proof -
  have "fetch_features (self\<lparr>comp_features := c\<rparr>) = fetch_features (self\<lparr>comp_features := c'\<rparr>)"
    unfolding fetch_features_def bind_reset by simp
  then show ?thesis
    by (simp add: FeatureImporter_comp_features_def bind_def reset_comp_features_def)
qed

section \<open>A custom mapper of the wrong class\<close>

text \<open>
  Claim C10. An argument \<open>custom_attr_mapper\<close> that is not an \<open>AttributeMapper\<close> (None, a
  dictionary, anything else) is replaced by a new empty mapper: the constructor does
  what it does for an empty mapper, the importer it returns holds the empty mapper, and
  it returns one whenever the two layers answer the schema request.
\<close>

theorem malformed_custom_mapper_ignored:
  "\<not> isinstance_AttributeMapper arg \<Longrightarrow>
     FeatureImporter_init s t arg = FeatureImporter_init s t (AttributeMapperObj AttributeMapper) \<and>
     (\<forall>self. FeatureImporter_init s t arg = Inr self \<longrightarrow> cust_attr_mapper self = AttributeMapper) \<and>
     (\<not> refuses s Definition \<and> \<not> refuses t Definition \<longrightarrow>
        (\<exists>self. FeatureImporter_init s t arg = Inr self))"
proof (intro conjI allI impI)
  assume a: "\<not> isinstance_AttributeMapper arg"
  show "FeatureImporter_init s t arg = FeatureImporter_init s t (AttributeMapperObj AttributeMapper)"
    using a by (simp add: FeatureImporter_init_def)
  show "cust_attr_mapper self = AttributeMapper" if "FeatureImporter_init s t arg = Inr self" for self
    using that a
    by (auto simp: FeatureImporter_init_def Let_def split: prod.splits sum.splits
          dest!: build_auto_attr_mapper_frame)
  show "\<exists>self. FeatureImporter_init s t arg = Inr self"
    if "\<not> refuses s Definition \<and> \<not> refuses t Definition"
    using that
      build_auto_attr_mapper_ok [of "\<lparr>src_feat_layer = s, tgt_feat_layer = t,
         cust_attr_mapper =
           (if isinstance_AttributeMapper arg then as_AttributeMapper arg else AttributeMapper),
         auto_attr_mapper = AttributeMapper, comp_features = empty_comp, remote_calls = []\<rparr>"]
    by (auto simp: FeatureImporter_init_def Let_def)
qed

theorem malformed_custom_mapper_ignored_witness:
  "\<not> isinstance_AttributeMapper (DictObj [(''cust_name'', ''customer_name'')]) \<and>
   \<not> refuses ex_src Definition \<and> \<not> refuses ex_tgt Definition \<and>
   FeatureImporter_init ex_src ex_tgt (DictObj [(''cust_name'', ''customer_name'')]) =
     Inr \<lparr>src_feat_layer = ex_src, tgt_feat_layer = ex_tgt,
          cust_attr_mapper = AttributeMapper,
          auto_attr_mapper = \<lparr>attribute_map = [(''OBJECTID'', ''OBJECTID''), (''uid'', ''uid'')]\<rparr>,
          comp_features = empty_comp,
          remote_calls = [(Source, Definition), (Target, Definition)]\<rparr>"
  using malformed_custom_mapper_ignored [of "DictObj [(''cust_name'', ''customer_name'')]" ex_src ex_tgt]
  by (simp add: FeatureImporter_init_def build_auto_attr_mapper_def bind_def ret_def
        call_definition_def sent_def layer_definition_def ex_src_def ex_tgt_def
        AttributeMapper_def add_mapping_def)

end
